theory Spec2Isabelle
  imports Main "HOL-Library.Sublist"
begin

section \<open>The stop hook of the Ralph loop (hooks/stop-hook.py)\<close>

text \<open>
  The hook is one function, \<open>main\<close>: it reads the hook payload from standard input, the
  loop state file \<open>.claude/ralph-loop.local.md\<close> and the transcript named by the payload,
  and ends in \<open>sys.exit(0)\<close> on every branch, after printing and after deleting or
  rewriting the state file.

  Python strings are modelled as \<open>string\<close>, a \<open>char\<close> standing for the code point of the
  same number (0 to 255); code points above 255 are outside the model. The character
  classes below are Python's Unicode classes cut to that range.
\<close>

subsection \<open>Characters and the string methods the hook calls\<close>

definition LF :: char where
  "LF = CHR 0x0A"

definition CR :: char where
  "CR = CHR 0x0D"

definition DQ :: char where
  "DQ = CHR 0x22"

definition is_space :: "char \<Rightarrow> bool" where
  \<comment> \<open>\<open>str.isspace\<close> and the \<open>\s\<close> of a \<open>str\<close> pattern: tab, LF, VT, FF, CR, the four
      separators 0x1C to 0x1F, space, NEL and the no-break space.\<close>
  "is_space c \<longleftrightarrow> c \<in> set [CHR 0x09, CHR 0x0A, CHR 0x0B, CHR 0x0C, CHR 0x0D,
     CHR 0x1C, CHR 0x1D, CHR 0x1E, CHR 0x1F, CHR 0x20, CHR 0x85, CHR 0xA0]"

definition is_digit :: "char \<Rightarrow> bool" where
  \<comment> \<open>\<open>\d\<close>: the decimal digits; below 256 these are 0 to 9 only.\<close>
  "is_digit c \<longleftrightarrow> c \<in> set ''0123456789''"

definition is_linebreak :: "char \<Rightarrow> bool" where
  \<comment> \<open>the one-character line boundaries of \<open>str.splitlines\<close> other than CR\<close>
  "is_linebreak c \<longleftrightarrow> c \<in> set [CHR 0x0A, CHR 0x0B, CHR 0x0C, CHR 0x1C, CHR 0x1D, CHR 0x1E, CHR 0x85]"

definition lower :: "char \<Rightarrow> char" where
  \<comment> \<open>case folding of \<open>re.IGNORECASE\<close> on the letters the patterns use\<close>
  "lower c = (case map_of (zip ''ABCDEFGHIJKLMNOPQRSTUVWXYZ'' ''abcdefghijklmnopqrstuvwxyz'') c of
                Some d \<Rightarrow> d | None \<Rightarrow> c)"

definition py_strip :: "string \<Rightarrow> string" where
  \<comment> \<open>\<open>s.strip()\<close>\<close>
  "py_strip s = rev (dropWhile is_space (rev (dropWhile is_space s)))"

fun words_from :: "string \<Rightarrow> string \<Rightarrow> string list" where
  "words_from w [] = (if w = [] then [] else [w])"
| "words_from w (c # cs) =
     (if is_space c then (if w = [] then words_from [] cs else w # words_from [] cs)
      else words_from (w @ [c]) cs)"

definition py_split :: "string \<Rightarrow> string list" where
  \<comment> \<open>\<open>s.split()\<close>: the maximal runs of non-whitespace\<close>
  "py_split s = words_from [] s"

fun py_join :: "string \<Rightarrow> string list \<Rightarrow> string" where
  "py_join sep [] = []"
| "py_join sep [x] = x"
| "py_join sep (x # y # ys) = x @ sep @ py_join sep (y # ys)"

fun split_on :: "char \<Rightarrow> string \<Rightarrow> string list" where
  \<comment> \<open>\<open>s.split(d)\<close> for a one-character separator\<close>
  "split_on d [] = [[]]"
| "split_on d (c # cs) =
     (if c = d then [] # split_on d cs
      else (case split_on d cs of [] \<Rightarrow> [[c]] | w # ws \<Rightarrow> (c # w) # ws))"

fun lines_from :: "string \<Rightarrow> string \<Rightarrow> string list" where
  "lines_from cur [] = (if cur = [] then [] else [cur])"
| "lines_from cur [c] = (if c = CR \<or> is_linebreak c then [cur] else [cur @ [c]])"
| "lines_from cur (c # d # ds) =
     (if c = CR \<and> d = LF then cur # lines_from [] ds
      else if c = CR \<or> is_linebreak c then cur # lines_from [] (d # ds)
      else lines_from (cur @ [c]) (d # ds))"

definition py_splitlines :: "string \<Rightarrow> string list" where
  \<comment> \<open>\<open>s.splitlines()\<close>\<close>
  "py_splitlines s = lines_from [] s"

fun contains :: "string \<Rightarrow> string \<Rightarrow> bool" where
  \<comment> \<open>\<open>needle in s\<close>\<close>
  "contains needle [] = (needle = [])"
| "contains needle (c # cs) = (prefix needle (c # cs) \<or> contains needle cs)"

fun universal_newlines :: "string \<Rightarrow> string" where
  \<comment> \<open>what text-mode reading does to line ends: CR LF and a lone CR become LF\<close>
  "universal_newlines [] = []"
| "universal_newlines [c] = (if c = CR then [LF] else [c])"
| "universal_newlines (c # d # ds) =
     (if c = CR \<and> d = LF then LF # universal_newlines ds
      else if c = CR then LF # universal_newlines (d # ds)
      else c # universal_newlines (d # ds))"

definition digit_val :: "char \<Rightarrow> nat" where
  "digit_val c = (case map_of (zip ''0123456789'' [0, 1, 2, 3, 4, 5, 6, 7, 8, 9]) c of
                    Some n \<Rightarrow> n | None \<Rightarrow> 0)"

definition digits_to_nat :: "string \<Rightarrow> nat" where
  "digits_to_nat ds = foldl (\<lambda>n c. 10 * n + digit_val c) 0 ds"

definition digit_chr :: "nat \<Rightarrow> char" where
  "digit_chr n = ''0123456789'' ! (n mod 10)"

function show_nat :: "nat \<Rightarrow> string" where
  \<comment> \<open>\<open>str(n)\<close> of a non-negative integer\<close>
  "show_nat n = (if n < 10 then [digit_chr n] else show_nat (n div 10) @ [digit_chr n])"
  by pat_completeness auto
termination
  by (relation "measure id") auto

declare show_nat.simps [simp del]

subsection \<open>The regular expressions of the hook\<close>

text \<open>
  Each pattern of the source is one function here. None of the patterns needs
  backtracking beyond what is written out: an optional \<open>\r\<close> is followed by a mandatory
  \<open>\n\<close>, a greedy \<open>\s*\<close> or \<open>\d+\<close> is followed by something that is not of its class, and the
  lazy groups try the shortest length first.
\<close>

definition open_delim :: "string \<Rightarrow> string option" where
  \<comment> \<open>\<open>^---\r?\n\<close> at the start of the content; the rest after it\<close>
  "open_delim s =
     (if prefix (''---'' @ [CR, LF]) s then Some (drop 5 s)
      else if prefix (''---'' @ [LF]) s then Some (drop 4 s)
      else None)"

definition close_delim :: "string \<Rightarrow> string option" where
  \<comment> \<open>\<open>\r?\n---\<close> at the start of \<open>t\<close>; the rest after it\<close>
  "close_delim t =
     (if prefix ([CR, LF] @ ''---'') t then Some (drop 5 t)
      else if prefix ([LF] @ ''---'') t then Some (drop 4 t)
      else None)"

fun lazy_header :: "string \<Rightarrow> string option" where
  \<comment> \<open>\<open>(.+?)\r?\n---\<close> with DOTALL: group 1, the shortest non-empty text before a closing
      delimiter\<close>
  "lazy_header [] = None"
| "lazy_header (c # cs) =
     (if close_delim cs \<noteq> None then Some [c] else map_option ((#) c) (lazy_header cs))"

definition frontmatter_search :: "string \<Rightarrow> string option" where
  \<comment> \<open>\<open>re.search(r"^---\r?\n(.+?)\r?\n---", content, re.DOTALL)\<close>, group 1\<close>
  "frontmatter_search content =
     (case open_delim content of None \<Rightarrow> None | Some rest \<Rightarrow> lazy_header rest)"

definition eol :: "string \<Rightarrow> string option" where
  \<comment> \<open>\<open>\r?\n\<close> at the start of \<open>t\<close>; the rest after it\<close>
  "eol t =
     (if prefix [CR, LF] t then Some (drop 2 t)
      else if prefix [LF] t then Some (drop 1 t)
      else None)"

definition prompt_tail :: "string \<Rightarrow> string option" where
  \<comment> \<open>\<open>\r?\n---\r?\n(.+)$\<close> with DOTALL at the start of \<open>t\<close>: group 1, all that follows,
      which must not be empty\<close>
  "prompt_tail t =
     (case close_delim t of
        None \<Rightarrow> None
      | Some u \<Rightarrow> (case eol u of
                    None \<Rightarrow> None
                  | Some b \<Rightarrow> if b = [] then None else Some b))"

fun lazy_prompt :: "string \<Rightarrow> string option" where
  \<comment> \<open>\<open>.+?\<close> followed by \<open>prompt_tail\<close>\<close>
  "lazy_prompt [] = None"
| "lazy_prompt (c # cs) =
     (case prompt_tail cs of Some b \<Rightarrow> Some b | None \<Rightarrow> lazy_prompt cs)"

definition prompt_search :: "string \<Rightarrow> string option" where
  \<comment> \<open>\<open>re.search(r"^---\r?\n.+?\r?\n---\r?\n(.+)$", content, re.DOTALL)\<close>, group 1\<close>
  "prompt_search content =
     (case open_delim content of None \<Rightarrow> None | Some rest \<Rightarrow> lazy_prompt rest)"

definition ci_prefix :: "string \<Rightarrow> string \<Rightarrow> bool" where
  \<comment> \<open>a lower-case literal matched without regard to case at the start of \<open>s\<close>\<close>
  "ci_prefix p s = prefix p (map lower s)"

definition active_at :: "string \<Rightarrow> bool" where
  \<comment> \<open>\<open>active:\s*(false|no)\<close> with IGNORECASE at the start of \<open>s\<close>\<close>
  "active_at s =
     (ci_prefix ''active:'' s \<and>
      (let t = dropWhile is_space (drop 7 s) in ci_prefix ''false'' t \<or> ci_prefix ''no'' t))"

fun active_search :: "string \<Rightarrow> bool" where
  \<comment> \<open>\<open>re.search(r"active:\s*(false|no)", frontmatter, re.IGNORECASE)\<close> finds a match\<close>
  "active_search [] = False"
| "active_search (c # cs) = (active_at (c # cs) \<or> active_search cs)"

definition match_number :: "string \<Rightarrow> string \<Rightarrow> string option" where
  \<comment> \<open>\<open>re.match(r"^key\s*(\d+)", line)\<close>, group 1, for \<open>key\<close> one of \<open>iteration:\<close> and
      \<open>max_iterations:\<close>\<close>
  "match_number key line =
     (if prefix key line
      then (let ds = takeWhile is_digit (dropWhile is_space (drop (length key) line))
            in if ds = [] then None else Some ds)
      else None)"

definition match_promise :: "string \<Rightarrow> string option" where
  \<comment> \<open>\<open>re.match(r'^completion_promise:\s*"?([^"]*)"?', line)\<close>, group 1\<close>
  "match_promise line =
     (if prefix ''completion_promise:'' line
      then (let t = dropWhile is_space (drop 19 line);
                u = (case t of [] \<Rightarrow> t | c # cs \<Rightarrow> if c = DQ then cs else t)
            in Some (takeWhile (\<lambda>c. c \<noteq> DQ) u))
      else None)"

fun until_close_tag :: "string \<Rightarrow> string option" where
  \<comment> \<open>\<open>(.*?)</promise>\<close> with DOTALL at the start of the text: group 1\<close>
  "until_close_tag [] = None"
| "until_close_tag (c # cs) =
     (if prefix ''</promise>'' (c # cs) then Some []
      else map_option ((#) c) (until_close_tag cs))"

fun promise_search :: "string \<Rightarrow> string option" where
  \<comment> \<open>\<open>re.search(r"<promise>(.*?)</promise>", last_output, re.DOTALL)\<close>, group 1\<close>
  "promise_search [] = None"
| "promise_search (c # cs) =
     (if prefix ''<promise>'' (c # cs)
      then (case until_close_tag (drop 9 (c # cs)) of
              Some g \<Rightarrow> Some g
            | None \<Rightarrow> promise_search cs)
      else promise_search cs)"

definition match_iteration :: "string \<Rightarrow> string option" where
  \<comment> \<open>\<open>iteration:\s*\d+\<close> at the start of \<open>s\<close>; the rest after the match\<close>
  "match_iteration s =
     (if prefix ''iteration:'' s
      then (let t = dropWhile is_space (drop 10 s)
            in if takeWhile is_digit t = [] then None else Some (dropWhile is_digit t))
      else None)"

function re_sub_iteration :: "string \<Rightarrow> string \<Rightarrow> string" where
  \<comment> \<open>\<open>re.sub(r"iteration:\s*\d+", repl, content)\<close> for a replacement without escapes:
      every match, left to right, none overlapping\<close>
  "re_sub_iteration repl [] = []"
| "re_sub_iteration repl (c # cs) =
     (case match_iteration (c # cs) of
        Some rest \<Rightarrow> repl @ re_sub_iteration repl rest
      | None \<Rightarrow> c # re_sub_iteration repl cs)"
  by pat_completeness auto
termination
proof (relation "measure (\<lambda>(repl, s). length s)")
  show "wf (measure (\<lambda>(repl, s). length s))"
    by simp
next
  fix repl :: string and c :: char and cs r :: string
  assume m: "match_iteration (c # cs) = Some r"
  then have p: "prefix ''iteration:'' (c # cs)"
    by (simp add: match_iteration_def split: if_splits)
  from m p have r: "r = dropWhile is_digit (dropWhile is_space (drop 10 (c # cs)))"
    by (simp add: match_iteration_def Let_def split: if_splits)
  have "length r \<le> length (drop 10 (c # cs))"
    unfolding r
    by (rule order_trans [OF length_dropWhile_le length_dropWhile_le])
  moreover from p have "10 \<le> length (c # cs)"
    using prefix_length_le by fastforce
  ultimately have "length r < length (c # cs)"
    by simp
  then show "((repl, r), (repl, c # cs)) \<in> measure (\<lambda>(repl, s). length s)"
    by simp
next
  fix repl :: string and c :: char and cs :: string
  show "((repl, cs), (repl, c # cs)) \<in> measure (\<lambda>(repl, s). length s)"
    by simp
qed

subsection \<open>Values, the interpreter and the world\<close>

text \<open>
  \<open>json.loads\<close>, \<open>json.dumps\<close> and the texts Python gives to a value or an exception in an
  f-string belong to the interpreter, not to the hook: they are parameters of the model
  (\<open>env\<close>), and every theorem holds for all of them. So are the limit on the digits
  \<open>int()\<close> accepts (\<open>sys.get_int_max_str_digits()\<close>, 0 for no limit) and the platform, which
  decides how a path prints and which line ends \<open>write_text\<close> writes.
\<close>

datatype pyfloat = Finite bool nat int | Infinite bool | NaN

datatype json =
    JNull
  | JBool bool
  | JInt int
  | JFloat pyfloat
  | JStr string
  | JArr "json list"
  | JObj "(string \<times> json) list"

datatype exc =
    JSONDecodeError
  | KeyError
  | TypeError
  | AttributeError
  | ValueError
  | RecursionError
  | IsADirectoryError
  | UnicodeDecodeError

datatype platform = Posix | Windows

datatype node = Regular string | Undecodable | Directory

record env =
  json_loads :: "string \<Rightarrow> exc + json"
  json_dumps :: "json \<Rightarrow> string"
  py_str :: "json \<Rightarrow> string"
  exc_str :: "exc \<Rightarrow> string"
  int_max_str_digits :: nat
  running_on :: platform

record world =
  stdin :: string
  state_file :: "node option"
  files :: "string \<Rightarrow> node option"

text \<open>
  What the \<open>try\<close> body ends with: \<open>sys.exit(n)\<close> after some effects, or an exception
  on its way to the handler. Every exception of the body is raised before the body
  prints or touches the state file.
\<close>

record effects =
  out :: "string list"
  err :: "string list"
  sfile :: "node option"

datatype signal = SystemExit int effects | Raised exc

record outcome =
  stdout :: "string list"
  stderr :: "string list"
  state_file_after :: "node option"
  exit_code :: int

fun truthy :: "json \<Rightarrow> bool" where
  "truthy JNull = False"
| "truthy (JBool b) = b"
| "truthy (JInt i) = (i \<noteq> 0)"
| "truthy (JFloat x) = (case x of Finite s m e \<Rightarrow> m \<noteq> 0 | Infinite s \<Rightarrow> True | NaN \<Rightarrow> True)"
| "truthy (JStr s) = (s \<noteq> [])"
| "truthy (JArr xs) = (xs \<noteq> [])"
| "truthy (JObj kvs) = (kvs \<noteq> [])"

fun py_get :: "json \<Rightarrow> string \<Rightarrow> json \<Rightarrow> exc + json" where
  \<comment> \<open>\<open>v.get(key, default)\<close>: only a dict has the method\<close>
  "py_get (JObj kvs) key dflt = Inr (case map_of kvs key of None \<Rightarrow> dflt | Some v \<Rightarrow> v)"
| "py_get v key dflt = Inl AttributeError"

fun py_iter :: "json \<Rightarrow> exc + json list" where
  \<comment> \<open>what \<open>for item in v\<close> runs over: a list's items, a dict's keys, a string's
      characters\<close>
  "py_iter (JArr xs) = Inr xs"
| "py_iter (JObj kvs) = Inr (map (\<lambda>kv. JStr (fst kv)) kvs)"
| "py_iter (JStr s) = Inr (map (\<lambda>c. JStr [c]) s)"
| "py_iter v = Inl TypeError"

fun text_items :: "json list \<Rightarrow> exc + json list" where
  \<comment> \<open>\<open>[item.get("text", "") for item in items if item.get("type") == "text"]\<close>\<close>
  "text_items [] = Inr []"
| "text_items (item # items) =
     (case py_get item ''type'' JNull of
        Inl e \<Rightarrow> Inl e
      | Inr t \<Rightarrow>
          if t = JStr ''text''
          then (case py_get item ''text'' (JStr []) of
                  Inl e \<Rightarrow> Inl e
                | Inr x \<Rightarrow> (case text_items items of Inl e \<Rightarrow> Inl e | Inr xs \<Rightarrow> Inr (x # xs)))
          else text_items items)"

fun strings_of :: "json list \<Rightarrow> exc + string list" where
  \<comment> \<open>\<open>str.join\<close> takes strings only\<close>
  "strings_of [] = Inr []"
| "strings_of (JStr s # vs) = (case strings_of vs of Inl e \<Rightarrow> Inl e | Inr ss \<Rightarrow> Inr (s # ss))"
| "strings_of (v # vs) = Inl TypeError"

definition py_int :: "env \<Rightarrow> string \<Rightarrow> exc + nat" where
  \<comment> \<open>\<open>int(ds)\<close> of a non-empty run of digits; a limit, when set, is 640 or more, and a
      longer run raises\<close>
  "py_int env ds =
     (if 0 < int_max_str_digits env \<and> int_max_str_digits env < length ds then Inl ValueError
      else Inr (digits_to_nat ds))"

definition read_text :: "node \<Rightarrow> exc + string" where
  \<comment> \<open>\<open>Path.read_text(encoding="utf-8")\<close>\<close>
  "read_text f =
     (case f of
        Regular s \<Rightarrow> Inr (universal_newlines s)
      | Undecodable \<Rightarrow> Inl UnicodeDecodeError
      | Directory \<Rightarrow> Inl IsADirectoryError)"

definition write_text :: "platform \<Rightarrow> string \<Rightarrow> node" where
  \<comment> \<open>\<open>Path.write_text(s, encoding="utf-8")\<close>: LF is written as \<open>os.linesep\<close>\<close>
  "write_text p s =
     (case p of
        Posix \<Rightarrow> Regular s
      | Windows \<Rightarrow> Regular (concat (map (\<lambda>c. if c = LF then [CR, LF] else [c]) s)))"

definition ralph_state_file :: "platform \<Rightarrow> string" where
  \<comment> \<open>\<open>str(Path(".claude/ralph-loop.local.md"))\<close>\<close>
  "ralph_state_file p =
     (case p of
        Posix \<Rightarrow> ''.claude/ralph-loop.local.md''
      | Windows \<Rightarrow> ''.claude'' @ [CHR 0x5C] @ ''ralph-loop.local.md'')"

definition fmt :: "env \<Rightarrow> json \<Rightarrow> string" where
  \<comment> \<open>\<open>f"{v}"\<close>\<close>
  "fmt env v = (case v of JStr s \<Rightarrow> s | _ \<Rightarrow> py_str env v)"

subsection \<open>The state file's header\<close>

record fields =
  iteration :: nat
  max_iterations :: nat
  completion_promise :: "string option"

definition parse_line :: "env \<Rightarrow> fields \<Rightarrow> string \<Rightarrow> exc + fields" where
  \<comment> \<open>one turn of the loop over \<open>frontmatter.split("\n")\<close>\<close>
  "parse_line env f raw =
     (let line = py_strip raw in
      case match_number ''iteration:'' line of
        Some ds \<Rightarrow> (case py_int env ds of
                      Inl e \<Rightarrow> Inl e
                    | Inr n \<Rightarrow> Inr (f\<lparr>iteration := n\<rparr>))
      | None \<Rightarrow>
         (case match_number ''max_iterations:'' line of
            Some ds \<Rightarrow> (case py_int env ds of
                          Inl e \<Rightarrow> Inl e
                        | Inr n \<Rightarrow> Inr (f\<lparr>max_iterations := n\<rparr>))
          | None \<Rightarrow>
             (case match_promise line of
                Some p \<Rightarrow> Inr (f\<lparr>completion_promise :=
                                   (if p = ''null'' \<or> p = [] then None else Some p)\<rparr>)
              | None \<Rightarrow> Inr f)))"

fun parse_lines :: "env \<Rightarrow> fields \<Rightarrow> string list \<Rightarrow> exc + fields" where
  "parse_lines env f [] = Inr f"
| "parse_lines env f (l # ls) =
     (case parse_line env f l of Inl e \<Rightarrow> Inl e | Inr f' \<Rightarrow> parse_lines env f' ls)"

definition parse_frontmatter :: "env \<Rightarrow> string \<Rightarrow> exc + fields" where
  "parse_frontmatter env frontmatter =
     parse_lines env \<lparr>iteration = 0, max_iterations = 0, completion_promise = None\<rparr>
       (split_on LF frontmatter)"

subsection \<open>The handler\<close>

definition silent :: "world \<Rightarrow> effects" where
  \<comment> \<open>nothing printed, the state file as it was\<close>
  "silent w = \<lparr>out = [], err = [], sfile = state_file w\<rparr>"

definition stop_loop :: "string list \<Rightarrow> effects" where
  \<comment> \<open>lines on stderr, then \<open>ralph_state_file.unlink(missing_ok=True)\<close>\<close>
  "stop_loop lines = \<lparr>out = [], err = lines, sfile = None\<rparr>"

definition announce :: "string \<Rightarrow> effects" where
  \<comment> \<open>a \<open>print\<close> without \<open>file=\<close>, then the unlink\<close>
  "announce line = \<lparr>out = [line], err = [], sfile = None\<rparr>"

definition corrupted_lines :: "env \<Rightarrow> string list" where
  "corrupted_lines env =
     [''Warning: Ralph loop: State file corrupted'',
      ''   File: '' @ ralph_state_file (running_on env),
      ''   Problem: 'iteration' field is not a valid number'',
      [],
      ''   This usually means the state file was manually edited or corrupted.'',
      ''   Ralph loop is stopping. Run /ralph-loop again to start fresh.'']"

definition max_reached_line :: "nat \<Rightarrow> string" where
  "max_reached_line n = ''Stop: Ralph loop: Max iterations ('' @ show_nat n @ '') reached.''"

definition check_state :: "env \<Rightarrow> world \<Rightarrow> signal + string \<times> fields" where
  \<comment> \<open>lines 20 to 77: the state file is read and checked; the content and the header's
      fields go on\<close>
  "check_state env w =
     (case state_file w of
        None \<Rightarrow> Inl (SystemExit 0 (silent w))
      | Some f \<Rightarrow>
         (case read_text f of
            Inl e \<Rightarrow> Inl (Raised e)
          | Inr content \<Rightarrow>
              if content = [] then Inl (SystemExit 0 (silent w))
              else
               (case frontmatter_search content of
                  None \<Rightarrow>
                    Inl (SystemExit 0
                          (stop_loop [''Warning: Ralph loop: Failed to parse frontmatter'']))
                | Some frontmatter \<Rightarrow>
                    if active_search frontmatter then Inl (SystemExit 0 (silent w))
                    else
                     (case parse_frontmatter env frontmatter of
                        Inl e \<Rightarrow> Inl (Raised e)
                      | Inr f \<Rightarrow>
                          if iteration f \<le> 0
                          then Inl (SystemExit 0 (stop_loop (corrupted_lines env)))
                          else if max_iterations f > 0 \<and> iteration f \<ge> max_iterations f
                          then Inl (SystemExit 0
                                     (announce (max_reached_line (max_iterations f))))
                          else Inr (content, f)))))"

definition not_found_lines :: "env \<Rightarrow> json \<Rightarrow> string list" where
  "not_found_lines env transcript_path =
     [''Warning: Ralph loop: Transcript file not found'',
      ''   Expected: '' @ fmt env transcript_path,
      ''   This is unusual and may indicate a Claude Code internal issue.'',
      ''   Ralph loop is stopping.'']"

definition read_hook_input :: "env \<Rightarrow> world \<Rightarrow> signal + json" where
  \<comment> \<open>lines 79 to 92\<close>
  "read_hook_input env w =
     (case (if py_strip (stdin w) \<noteq> []
            then (case json_loads env (stdin w) of
                    Inl e \<Rightarrow>
                      if e = JSONDecodeError
                      then Inl (SystemExit 0
                                 (stop_loop [''Warning: Ralph loop: Failed to parse hook input JSON'']))
                      else Inl (Raised e)
                  | Inr v \<Rightarrow> Inr v)
            else Inr JNull) of
        Inl s \<Rightarrow> Inl s
      | Inr hook_input \<Rightarrow>
          if \<not> truthy hook_input
          then Inl (SystemExit 0 (stop_loop [''Warning: Ralph loop: No hook input received'']))
          else Inr hook_input)"

definition read_transcript :: "env \<Rightarrow> world \<Rightarrow> signal + string \<times> string list" where
  \<comment> \<open>lines 79 to 105: the payload, the transcript's path and its lines\<close>
  "read_transcript env w =
     (case read_hook_input env w of
        Inl s \<Rightarrow> Inl s
      | Inr hook_input \<Rightarrow>
         (case py_get hook_input ''transcript_path'' JNull of
            Inl e \<Rightarrow> Inl (Raised e)
          | Inr transcript_path \<Rightarrow>
              if \<not> truthy transcript_path
              then Inl (SystemExit 0 (stop_loop (not_found_lines env transcript_path)))
              else
               (case transcript_path of
                  JStr p \<Rightarrow>
                   (case files w p of
                      None \<Rightarrow> Inl (SystemExit 0 (stop_loop (not_found_lines env transcript_path)))
                    | Some f \<Rightarrow>
                       (case read_text f of
                          Inl e \<Rightarrow> Inl (Raised e)
                        | Inr text \<Rightarrow> Inr (p, py_splitlines text)))
                | _ \<Rightarrow> Inl (Raised TypeError))))"

definition role_marker :: string where
  \<comment> \<open>the text \<open>"role":"assistant"\<close>\<close>
  "role_marker = [DQ] @ ''role'' @ [DQ] @ '':'' @ [DQ] @ ''assistant'' @ [DQ]"

definition message_text :: "env \<Rightarrow> string \<Rightarrow> exc + string" where
  \<comment> \<open>the \<open>try\<close> body of lines 122 to 128\<close>
  "message_text env last_line =
     (case json_loads env last_line of
        Inl e \<Rightarrow> Inl e
      | Inr last_message \<Rightarrow>
         (case py_get last_message ''message'' (JObj []) of
            Inl e \<Rightarrow> Inl e
          | Inr message \<Rightarrow>
             (case py_get message ''content'' (JArr []) of
                Inl e \<Rightarrow> Inl e
              | Inr content \<Rightarrow>
                 (case py_iter content of
                    Inl e \<Rightarrow> Inl e
                  | Inr items \<Rightarrow>
                     (case text_items items of
                        Inl e \<Rightarrow> Inl e
                      | Inr text_content \<Rightarrow>
                         (case strings_of text_content of
                            Inl e \<Rightarrow> Inl e
                          | Inr ss \<Rightarrow> Inr (py_join [LF] ss)))))))"

definition no_assistant_lines :: "string \<Rightarrow> string list" where
  "no_assistant_lines transcript_path =
     [''Warning: Ralph loop: No assistant messages found in transcript'',
      ''   Transcript: '' @ transcript_path,
      ''   This is unusual and may indicate a transcript format issue'',
      ''   Ralph loop is stopping.'']"

definition bad_message_lines :: "env \<Rightarrow> exc \<Rightarrow> string list" where
  "bad_message_lines env e =
     [''Warning: Ralph loop: Failed to parse assistant message JSON'',
      ''   Error: '' @ exc_str env e,
      ''   This may indicate a transcript format issue'',
      ''   Ralph loop is stopping.'']"

definition no_text_lines :: "string list" where
  "no_text_lines =
     [''Warning: Ralph loop: Assistant message contained no text content'',
      ''   Ralph loop is stopping.'']"

definition output_of_line :: "env \<Rightarrow> string \<Rightarrow> signal + string" where
  \<comment> \<open>lines 119 to 141: \<open>last_output\<close> from the chosen line\<close>
  "output_of_line env last_line =
     (case message_text env last_line of
        Inl e \<Rightarrow>
          if e \<in> {JSONDecodeError, KeyError, TypeError}
          then Inl (SystemExit 0 (stop_loop (bad_message_lines env e)))
          else Inl (Raised e)
      | Inr last_output \<Rightarrow>
          if last_output = [] then Inl (SystemExit 0 (stop_loop no_text_lines))
          else Inr last_output)"

definition last_assistant_text :: "env \<Rightarrow> string \<Rightarrow> string list \<Rightarrow> signal + string" where
  \<comment> \<open>lines 106 to 141\<close>
  "last_assistant_text env transcript_path transcript_lines =
     (let assistant_lines = filter (contains role_marker) transcript_lines in
      if assistant_lines = []
      then Inl (SystemExit 0 (stop_loop (no_assistant_lines transcript_path)))
      else output_of_line env (last assistant_lines))"

definition normalize_promise :: "string \<Rightarrow> string" where
  \<comment> \<open>\<open>" ".join(text.strip().split())\<close>\<close>
  "normalize_promise text = py_join '' '' (py_split (py_strip text))"

definition promise_met :: "string option \<Rightarrow> string \<Rightarrow> bool" where
  \<comment> \<open>lines 144 to 148\<close>
  "promise_met promise last_output =
     (case promise of
        None \<Rightarrow> False
      | Some p \<Rightarrow>
          p \<noteq> [] \<and>
          (case promise_search last_output of
             None \<Rightarrow> False
           | Some promise_text \<Rightarrow> normalize_promise promise_text = p))"

definition done_line :: "string \<Rightarrow> string" where
  "done_line p = ''Done: Ralph loop: Detected <promise>'' @ p @ ''</promise>''"

definition no_prompt_lines :: "env \<Rightarrow> string list" where
  "no_prompt_lines env =
     [''Warning: Ralph loop: State file corrupted or incomplete'',
      ''   File: '' @ ralph_state_file (running_on env),
      ''   Problem: No prompt text found'',
      [],
      ''   This usually means:'',
      ''     - State file was manually edited'',
      ''     - File was corrupted during writing'',
      [],
      ''   Ralph loop is stopping. Run /ralph-loop again to start fresh.'']"

definition system_msg :: "nat \<Rightarrow> string option \<Rightarrow> string" where
  "system_msg next_iteration promise =
     (case promise of
        None \<Rightarrow>
          ''Refresh: Ralph iteration '' @ show_nat next_iteration @
          '' | No completion promise set - loop runs infinitely''
      | Some p \<Rightarrow>
          if p = []
          then ''Refresh: Ralph iteration '' @ show_nat next_iteration @
               '' | No completion promise set - loop runs infinitely''
          else ''Refresh: Ralph iteration '' @ show_nat next_iteration @
               '' | To stop: output <promise>'' @ p @
               ''</promise> (ONLY when statement is TRUE - do not lie to exit!)'')"

definition prompt_text :: "string \<Rightarrow> string" where
  \<comment> \<open>lines 157 to 160\<close>
  "prompt_text content =
     (case prompt_search content of None \<Rightarrow> [] | Some g \<Rightarrow> py_strip g)"

definition new_content :: "nat \<Rightarrow> string \<Rightarrow> string" where
  \<comment> \<open>line 176\<close>
  "new_content next_iteration content =
     re_sub_iteration (''iteration: '' @ show_nat next_iteration) content"

definition block_decision :: "string \<Rightarrow> string \<Rightarrow> json" where
  \<comment> \<open>the dict \<open>output\<close> of lines 186 to 190\<close>
  "block_decision reason msg =
     JObj [(''decision'', JStr ''block''), (''reason'', JStr reason), (''systemMessage'', JStr msg)]"

definition continue_loop :: "env \<Rightarrow> string \<Rightarrow> fields \<Rightarrow> effects" where
  \<comment> \<open>lines 153 to 193\<close>
  "continue_loop env content f =
     (let next_iteration = iteration f + 1 in
      if prompt_text content = [] then stop_loop (no_prompt_lines env)
      else
        \<lparr>out = [json_dumps env
                  (block_decision (prompt_text content)
                     (system_msg next_iteration (completion_promise f)))],
         err = [],
         sfile = Some (write_text (running_on env) (new_content next_iteration content))\<rparr>)"

definition main_try :: "env \<Rightarrow> world \<Rightarrow> signal" where
  \<comment> \<open>the \<open>try\<close> body of \<open>main\<close>\<close>
  "main_try env w =
     (case check_state env w of
        Inl s \<Rightarrow> s
      | Inr (content, f) \<Rightarrow>
         (case read_transcript env w of
            Inl s \<Rightarrow> s
          | Inr (transcript_path, transcript_lines) \<Rightarrow>
             (case last_assistant_text env transcript_path transcript_lines of
                Inl s \<Rightarrow> s
              | Inr last_output \<Rightarrow>
                 (case completion_promise f of
                    None \<Rightarrow> SystemExit 0 (continue_loop env content f)
                  | Some p \<Rightarrow>
                      if promise_met (Some p) last_output
                      then SystemExit 0 (announce (done_line p))
                      else SystemExit 0 (continue_loop env content f)))))"

definition unexpected_lines :: "env \<Rightarrow> exc \<Rightarrow> string list" where
  "unexpected_lines env e =
     [''Error: Ralph loop: Unexpected error occurred'',
      ''   Error: '' @ exc_str env e,
      ''   Ralph loop is stopping to prevent crash.'']"

definition cleanup :: "node option \<Rightarrow> node option" where
  \<comment> \<open>lines 202 to 207: unlink the state file if it exists; a directory cannot be
      unlinked, and that failure is passed over\<close>
  "cleanup f = (case f of Some Directory \<Rightarrow> Some Directory | _ \<Rightarrow> None)"

definition main :: "env \<Rightarrow> world \<Rightarrow> outcome" where
  \<comment> \<open>\<open>SystemExit\<close> is no \<open>Exception\<close>: it passes the handler and sets the exit code. The
      handler's own \<open>sys.exit(0)\<close> does the same.\<close>
  "main env w =
     (case main_try env w of
        SystemExit n fx \<Rightarrow>
          \<lparr>stdout = out fx, stderr = err fx, state_file_after = sfile fx, exit_code = n\<rparr>
      | Raised e \<Rightarrow>
          \<lparr>stdout = [], stderr = unexpected_lines env e,
           state_file_after = cleanup (state_file w), exit_code = 0\<rparr>)"

subsection \<open>The transcript as the specification describes it\<close>

definition is_assistant_record :: "env \<Rightarrow> string \<Rightarrow> bool" where
  \<comment> \<open>Follows the specification's words, not the source: the line is a record that
      represents a message whose role field is \<open>assistant\<close>.\<close>
  "is_assistant_record env line =
     (case json_loads env line of
        Inl e \<Rightarrow> False
      | Inr v \<Rightarrow> (case py_get v ''message'' JNull of
                    Inl e \<Rightarrow> False
                  | Inr m \<Rightarrow> py_get m ''role'' JNull = Inr (JStr ''assistant'')))"

definition spec_last_assistant :: "env \<Rightarrow> string list \<Rightarrow> string option" where
  \<comment> \<open>Follows the specification's words: the last record whose role is \<open>assistant\<close>.\<close>
  "spec_last_assistant env transcript_lines =
     (case filter (is_assistant_record env) transcript_lines of
        [] \<Rightarrow> None
      | x # xs \<Rightarrow> Some (last (x # xs)))"

fun collapse_from :: "bool \<Rightarrow> string \<Rightarrow> string" where
  \<comment> \<open>Follows the specification's words: every run of whitespace becomes one space.
      The flag says that the character before was whitespace.\<close>
  "collapse_from in_run [] = []"
| "collapse_from in_run (c # cs) =
     (if is_space c
      then (if in_run then collapse_from True cs else CHR '' '' # collapse_from True cs)
      else c # collapse_from False cs)"

definition trimmed_collapsed :: "string \<Rightarrow> string" where
  \<comment> \<open>Follows the specification's words: ends trimmed, runs of whitespace collapsed to
      single spaces.\<close>
  "trimmed_collapsed text = collapse_from False (py_strip text)"

subsection \<open>A sample interpreter and sample files\<close>

text \<open>
  The concrete inputs on which the theorems below are instantiated. \<open>sample_loads\<close> is
  \<open>json.loads\<close> on the few texts listed here and \<open>sample_dumps\<close> is \<open>json.dumps\<close> on dicts of
  strings that need no escape; the sample texts and prompts are of that kind.
\<close>

definition quoted :: "string \<Rightarrow> string" where
  "quoted s = [DQ] @ s @ [DQ]"

definition sample_payload :: string where
  \<comment> \<open>\<open>{"transcript_path":"t.jsonl"}\<close>\<close>
  "sample_payload = ''{'' @ quoted ''transcript_path'' @ '':'' @ quoted ''t.jsonl'' @ ''}''"

definition assistant_line :: "string \<Rightarrow> string" where
  \<comment> \<open>\<open>{"message":{"role":"assistant","content":[{"type":"text","text":"..."}]}}\<close>\<close>
  "assistant_line text =
     ''{'' @ quoted ''message'' @ '':{'' @ quoted ''role'' @ '':'' @ quoted ''assistant'' @ '','' @
     quoted ''content'' @ '':[{'' @ quoted ''type'' @ '':'' @ quoted ''text'' @ '','' @
     quoted ''text'' @ '':'' @ quoted text @ ''}]}}''"

definition spaced_line :: "string \<Rightarrow> string" where
  \<comment> \<open>the same record written with a space after each colon, as \<open>json.dumps\<close> writes it\<close>
  "spaced_line text =
     ''{'' @ quoted ''message'' @ '': {'' @ quoted ''role'' @ '': '' @ quoted ''assistant'' @ '', '' @
     quoted ''content'' @ '': [{'' @ quoted ''type'' @ '': '' @ quoted ''text'' @ '', '' @
     quoted ''text'' @ '': '' @ quoted text @ ''}]}}''"

definition assistant_record :: "string \<Rightarrow> json" where
  "assistant_record text =
     JObj [(''message'',
            JObj [(''role'', JStr ''assistant''),
                  (''content'', JArr [JObj [(''type'', JStr ''text''), (''text'', JStr text)]])])]"

definition sample_texts :: "string list" where
  "sample_texts =
     [''still working'',
      ''first'',
      ''second'',
      ''<promise>DONE</promise>'',
      ''<promise>  DONE   now </promise>'',
      ''<promise>nearly</promise> and then <promise>DONE</promise>'']"

definition sample_loads :: "string \<Rightarrow> exc + json" where
  "sample_loads s =
     (if s = sample_payload then Inr (JObj [(''transcript_path'', JStr ''t.jsonl'')])
      else (case find (\<lambda>t. s = assistant_line t \<or> s = spaced_line t) sample_texts of
              Some t \<Rightarrow> Inr (assistant_record t)
            | None \<Rightarrow> Inl JSONDecodeError))"

fun dumps_members :: "(string \<times> json) list \<Rightarrow> string list" where
  "dumps_members [] = []"
| "dumps_members ((k, JStr v) # kvs) = (quoted k @ '': '' @ quoted v) # dumps_members kvs"
| "dumps_members ((k, v) # kvs) = (quoted k @ '': null'') # dumps_members kvs"

definition sample_dumps :: "json \<Rightarrow> string" where
  "sample_dumps v =
     (case v of JObj kvs \<Rightarrow> ''{'' @ py_join '', '' (dumps_members kvs) @ ''}'' | _ \<Rightarrow> ''null'')"

definition sample_str :: "json \<Rightarrow> string" where
  "sample_str v = (case v of JStr s \<Rightarrow> s | JBool b \<Rightarrow> (if b then ''True'' else ''False'') | _ \<Rightarrow> ''None'')"

definition sample_env :: env where
  "sample_env =
     \<lparr>json_loads = sample_loads, json_dumps = sample_dumps, py_str = sample_str,
      exc_str = (\<lambda>e. ''error''), int_max_str_digits = 4300, running_on = Posix\<rparr>"

definition state_text :: "string list \<Rightarrow> string \<Rightarrow> string" where
  \<comment> \<open>a state file: the header's lines between two \<open>---\<close> lines, then the prompt\<close>
  "state_text header_lines body =
     ''---'' @ [LF] @ py_join [LF] header_lines @ [LF] @ ''---'' @ [LF] @ body"

definition sample_world :: "string \<Rightarrow> string list \<Rightarrow> world" where
  \<comment> \<open>the sample payload on stdin, a state file and a transcript \<open>t.jsonl\<close> of the given
      lines\<close>
  "sample_world state transcript_lines =
     \<lparr>stdin = sample_payload,
      state_file = Some (Regular state),
      files = (\<lambda>p. if p = ''t.jsonl''
                    then Some (Regular (concat (map (\<lambda>l. l @ [LF]) transcript_lines)))
                    else None)\<rparr>"

definition promise_state :: string where
  \<comment> \<open>a state file in its first iteration whose promise is \<open>DONE\<close>\<close>
  "promise_state =
     state_text [''iteration: 1'', ''completion_promise: '' @ quoted ''DONE''] ''Keep going''"

section \<open>Properties\<close>

subsection \<open>Exit codes\<close>

lemma check_state_exit_code:
  "check_state env w = Inl (SystemExit n fx) \<Longrightarrow> n = 0"
  by (auto simp: check_state_def split: option.splits sum.splits if_splits)

lemma read_hook_input_exit_code:
  "read_hook_input env w = Inl (SystemExit n fx) \<Longrightarrow> n = 0"
  by (auto simp: read_hook_input_def split: option.splits sum.splits if_splits)

lemma read_transcript_exit_code:
  "read_transcript env w = Inl (SystemExit n fx) \<Longrightarrow> n = 0"
  by (auto simp: read_transcript_def split: option.splits sum.splits if_splits json.splits
      dest: read_hook_input_exit_code)

lemma last_assistant_text_exit_code:
  "last_assistant_text env p ls = Inl (SystemExit n fx) \<Longrightarrow> n = 0"
  by (auto simp: last_assistant_text_def output_of_line_def Let_def
      split: option.splits sum.splits if_splits)

lemma main_try_exit_code:
  "main_try env w = SystemExit n fx \<Longrightarrow> n = 0"
  by (auto simp: main_try_def split: sum.splits if_splits prod.splits option.splits
      dest: check_state_exit_code read_transcript_exit_code last_assistant_text_exit_code)

text \<open>
  C3. Whatever the interpreter's library returns or raises, whatever is on standard
  input, in the state file and in the transcript, the process exits with code 0: every
  branch of the body ends in \<open>sys.exit(0)\<close>, and an exception of the body reaches the
  handler, which ends in \<open>sys.exit(0)\<close> too.
\<close>

theorem exit_code_always_zero: "exit_code (main env w) = 0"
  by (cases "main_try env w") (auto simp: main_def dest: main_try_exit_code)

subsection \<open>The state file's checks\<close>






subsection \<open>An inactive loop\<close>









subsection \<open>A corrupted counter\<close>






subsection \<open>The iteration limit\<close>




subsection \<open>The last assistant message\<close>

lemma main_try_after_checks:
  assumes "check_state env w = Inr (content, f)"
    and "read_transcript env w = Inr (path, ls)"
  shows "main_try env w =
    (case last_assistant_text env path ls of
       Inl s \<Rightarrow> s
     | Inr last_output \<Rightarrow>
         if promise_met (completion_promise f) last_output
         then SystemExit 0 (announce (done_line (the (completion_promise f))))
         else SystemExit 0 (continue_loop env content f))"
  using assms
  by (cases "completion_promise f"; cases "last_assistant_text env path ls")
     (simp_all add: main_try_def promise_met_def)

lemma filter_last_match:
  assumes "P l" and "\<forall>x\<in>set post. \<not> P x"
  shows "filter P (pre @ l # post) \<noteq> [] \<and> last (filter P (pre @ l # post)) = l"
proof -
  from assms(2) have "filter P post = []" by (simp add: filter_empty_conv)
  with assms(1) show ?thesis by simp
qed

text \<open>
  C4, as amended. The state file and the payload have passed their checks and the
  transcript is read. If no line of the transcript contains the text
  \<open>"role":"assistant"\<close>, written exactly so, the handler warns on stderr, deletes the state
  file and exits 0. Otherwise \<open>last_output\<close> is taken from the last line that contains
  that text, whatever the lines after it are.
\<close>

theorem last_marked_line_is_used:
  assumes state: "check_state env w = Inr (content, f)"
    and transcript: "read_transcript env w = Inr (path, ls)"
  shows "((\<forall>l\<in>set ls. \<not> contains role_marker l) \<longrightarrow>
            main env w = \<lparr>stdout = [], stderr = no_assistant_lines path,
                           state_file_after = None, exit_code = 0\<rparr>) \<and>
         (\<forall>pre l post. ls = pre @ l # post \<and> contains role_marker l \<and>
              (\<forall>x\<in>set post. \<not> contains role_marker x) \<longrightarrow>
            last_assistant_text env path ls = output_of_line env l)"
proof (intro conjI impI allI)
  assume "\<forall>l\<in>set ls. \<not> contains role_marker l"
  then have "filter (contains role_marker) ls = []"
    by (simp add: filter_empty_conv)
  then have "last_assistant_text env path ls =
      Inl (SystemExit 0 (stop_loop (no_assistant_lines path)))"
    by (simp add: last_assistant_text_def)
  with main_try_after_checks [OF state transcript]
  show "main env w = \<lparr>stdout = [], stderr = no_assistant_lines path,
                        state_file_after = None, exit_code = 0\<rparr>"
    by (simp add: main_def stop_loop_def)
next
  fix pre l post
  assume a: "ls = pre @ l # post \<and> contains role_marker l \<and>
              (\<forall>x\<in>set post. \<not> contains role_marker x)"
  then have "filter (contains role_marker) ls \<noteq> [] \<and> last (filter (contains role_marker) ls) = l"
    using filter_last_match [of "contains role_marker" l post pre] by simp
  then show "last_assistant_text env path ls = output_of_line env l"
    by (simp add: last_assistant_text_def Let_def)
qed

theorem last_marked_line_is_used_witness:
  "last_assistant_text sample_env ''t.jsonl'' [assistant_line ''first'', spaced_line ''second''] =
     output_of_line sample_env (assistant_line ''first'') \<and>
   main sample_env (sample_world promise_state [spaced_line ''second'']) =
     \<lparr>stdout = [],
      stderr = [''Warning: Ralph loop: No assistant messages found in transcript'',
                ''   Transcript: t.jsonl'',
                ''   This is unusual and may indicate a transcript format issue'',
                ''   Ralph loop is stopping.''],
      state_file_after = None, exit_code = 0\<rparr>"
proof -
  let ?f = "\<lparr>iteration = 1, max_iterations = 0, completion_promise = Some ''DONE''\<rparr>"
  let ?w1 = "sample_world promise_state [assistant_line ''first'', spaced_line ''second'']"
  let ?w2 = "sample_world promise_state [spaced_line ''second'']"
  have s1: "check_state sample_env ?w1 = Inr (promise_state, ?f)"
    by code_simp
  have t1: "read_transcript sample_env ?w1 =
      Inr (''t.jsonl'', [assistant_line ''first'', spaced_line ''second''])"
    by code_simp
  have s2: "check_state sample_env ?w2 = Inr (promise_state, ?f)"
    by code_simp
  have t2: "read_transcript sample_env ?w2 = Inr (''t.jsonl'', [spaced_line ''second''])"
    by code_simp
  have m1: "contains role_marker (assistant_line ''first'')"
    by code_simp
  have m2: "\<not> contains role_marker (spaced_line ''second'')"
    by code_simp
  have n: "no_assistant_lines ''t.jsonl'' =
     [''Warning: Ralph loop: No assistant messages found in transcript'',
      ''   Transcript: t.jsonl'',
      ''   This is unusual and may indicate a transcript format issue'',
      ''   Ralph loop is stopping.'']"
    by code_simp
  from last_marked_line_is_used [OF s1 t1] m1 m2
  have "last_assistant_text sample_env ''t.jsonl'' [assistant_line ''first'', spaced_line ''second''] =
     output_of_line sample_env (assistant_line ''first'')"
    by (metis append_Nil list.set(1) list.set(2) empty_iff insert_iff)
  moreover from last_marked_line_is_used [OF s2 t2] m2
  have "main sample_env ?w2 = \<lparr>stdout = [], stderr = no_assistant_lines ''t.jsonl'',
     state_file_after = None, exit_code = 0\<rparr>"
    by simp
  ultimately show ?thesis
    using n by simp
qed

text \<open>
  C4 as stated fails when the last record of role \<open>assistant\<close> is written with a space
  after the colon: the handler passes it over and takes an earlier line, here one that
  holds the promise, and ends the loop on it.
\<close>

theorem last_assistant_record_not_used:
  "spec_last_assistant sample_env
     [assistant_line ''<promise>DONE</promise>'', spaced_line ''still working''] =
     Some (spaced_line ''still working'') \<and>
   message_text sample_env (spaced_line ''still working'') = Inr ''still working'' \<and>
   last_assistant_text sample_env ''t.jsonl''
     [assistant_line ''<promise>DONE</promise>'', spaced_line ''still working''] =
     Inr ''<promise>DONE</promise>'' \<and>
   main sample_env (sample_world promise_state
     [assistant_line ''<promise>DONE</promise>'', spaced_line ''still working'']) =
     \<lparr>stdout = [''Done: Ralph loop: Detected <promise>DONE</promise>''], stderr = [],
      state_file_after = None, exit_code = 0\<rparr>"
  by code_simp

subsection \<open>The completion promise\<close>

lemma words_from_empty_iff:
  "words_from w s = [] \<longleftrightarrow> w = [] \<and> (\<forall>c\<in>set s. is_space c)"
  by (induction s arbitrary: w) auto

lemma py_join_cons: "xs \<noteq> [] \<Longrightarrow> py_join sep (x # xs) = x @ sep @ py_join sep xs"
  by (cases xs) simp_all

lemma words_collapse:
  "(s = [] \<or> \<not> is_space (last s)) \<Longrightarrow>
   (\<forall>w. w \<noteq> [] \<longrightarrow> py_join '' '' (words_from w s) = w @ collapse_from False s) \<and>
   (s \<noteq> [] \<longrightarrow> py_join '' '' (words_from [] s) = collapse_from True s)"
proof (induction s)
  case Nil
  then show ?case by simp
next
  case (Cons c cs)
  show ?case
  proof (cases "is_space c")
    case True
    with Cons.prems have ne: "cs \<noteq> []" and l: "\<not> is_space (last cs)"
      by (auto split: if_splits)
    from Cons.IH ne l have B: "py_join '' '' (words_from [] cs) = collapse_from True cs"
      by simp
    from ne l have "\<not> (\<forall>c\<in>set cs. is_space c)"
      using last_in_set by blast
    then have "words_from [] cs \<noteq> []"
      by (simp add: words_from_empty_iff)
    with True B show ?thesis
      by (simp add: py_join_cons)
  next
    case False
    from Cons.prems have t: "cs = [] \<or> \<not> is_space (last cs)"
      by (auto split: if_splits)
    from Cons.IH [OF t] have A: "\<And>w. w \<noteq> [] \<Longrightarrow>
        py_join '' '' (words_from w cs) = w @ collapse_from False cs"
      by simp
    from False A [of "[c]"] A show ?thesis
      by simp
  qed
qed

lemma py_strip_ends:
  "py_strip s = [] \<or> (\<not> is_space (hd (py_strip s)) \<and> \<not> is_space (last (py_strip s)))"
proof (cases "py_strip s = []")
  case True
  then show ?thesis by simp
next
  case False
  define u where "u = dropWhile is_space s"
  define r where "r = dropWhile is_space (rev u)"
  have ps: "py_strip s = rev r"
    by (simp add: py_strip_def u_def r_def)
  with False have rne: "r \<noteq> []" by simp
  then have "\<not> is_space (hd r)"
    unfolding r_def by (rule hd_dropWhile)
  with rne have last_ok: "\<not> is_space (last (rev r))"
    by (simp add: last_rev)
  have "rev u = takeWhile is_space (rev u) @ r"
    by (simp add: r_def)
  then have "u = rev r @ rev (takeWhile is_space (rev u))"
    by (metis rev_append rev_rev_ident)
  then obtain x where ux: "u = rev r @ x" ..
  from rne have une: "u \<noteq> []" and "hd u = hd (rev r)"
    unfolding ux by simp_all
  moreover from une have "\<not> is_space (hd u)"
    unfolding u_def by (rule hd_dropWhile)
  ultimately have "\<not> is_space (hd (rev r))" by simp
  with last_ok ps show ?thesis by simp
qed

lemma normalize_promise_spec: "normalize_promise text = trimmed_collapsed text"
proof (cases "py_strip text")
  case Nil
  then show ?thesis
    by (simp add: normalize_promise_def trimmed_collapsed_def py_split_def)
next
  case (Cons c cs)
  with py_strip_ends [of "text"] have c: "\<not> is_space c" and l: "\<not> is_space (last (c # cs))"
    by auto
  then have t: "cs = [] \<or> \<not> is_space (last cs)"
    by (auto split: if_splits)
  from words_collapse [OF t] have "py_join '' '' (words_from [c] cs) = [c] @ collapse_from False cs"
    by simp
  with Cons c show ?thesis
    by (simp add: normalize_promise_def trimmed_collapsed_def py_split_def)
qed

lemma parse_line_promise_nonempty:
  "parse_line env f raw = Inr f' \<Longrightarrow> completion_promise f \<noteq> Some [] \<Longrightarrow>
   completion_promise f' \<noteq> Some []"
  by (auto simp: parse_line_def Let_def split: option.splits sum.splits if_splits)

lemma parse_lines_promise_nonempty:
  "parse_lines env f ls = Inr f' \<Longrightarrow> completion_promise f \<noteq> Some [] \<Longrightarrow>
   completion_promise f' \<noteq> Some []"
proof (induction ls arbitrary: f)
  case Nil
  then show ?case by simp
next
  case (Cons l ls)
  from Cons.prems(1) obtain g where g: "parse_line env f l = Inr g" and r: "parse_lines env g ls = Inr f'"
    by (auto split: sum.splits)
  from parse_line_promise_nonempty [OF g Cons.prems(2)] Cons.IH [OF r] show ?case by blast
qed

lemma check_state_promise_nonempty:
  assumes "check_state env w = Inr (content, f)"
  shows "completion_promise f \<noteq> Some []"
proof -
  from assms obtain fm where "parse_frontmatter env fm = Inr f"
    by (auto simp: check_state_def split: option.splits sum.splits if_splits)
  then show ?thesis
    unfolding parse_frontmatter_def by (rule parse_lines_promise_nonempty) simp
qed

lemma continue_loop_not_silent_delete:
  "sfile (continue_loop env content f) = None \<Longrightarrow> err (continue_loop env content f) \<noteq> []"
  by (auto simp: continue_loop_def Let_def stop_loop_def no_prompt_lines_def split: if_splits)

lemma main_of_exit:
  "main_try env w = SystemExit n fx \<Longrightarrow>
   main env w = \<lparr>stdout = out fx, stderr = err fx, state_file_after = sfile fx, exit_code = n\<rparr>"
  by (simp add: main_def)

text \<open>
  C5. All checks before the promise check have passed, a promise \<open>p\<close> is configured and
  \<open>last_output\<close> has a \<open><promise>\<close> span with inner text \<open>inner\<close>. The handler announces
  completion, deletes the state file and exits 0 exactly when \<open>inner\<close>, with its ends
  trimmed and every run of whitespace collapsed to one space, is equal to \<open>p\<close>, character
  for character. The inner text of \<open><promise>  DONE   now </promise>\<close> becomes \<open>DONE now\<close>.
\<close>

theorem promise_completes_on_equality:
  assumes state: "check_state env w = Inr (content, f)"
    and transcript: "read_transcript env w = Inr (path, ls)"
    and lo: "last_assistant_text env path ls = Inr last_output"
    and promise: "completion_promise f = Some p"
    and span: "promise_search last_output = Some inner"
  shows "(main env w =
            \<lparr>stdout = [''Done: Ralph loop: Detected <promise>'' @ p @ ''</promise>''],
             stderr = [], state_file_after = None, exit_code = 0\<rparr>)
          = (trimmed_collapsed inner = p) \<and>
         trimmed_collapsed ''  DONE   now '' = ''DONE now''"
proof
  from check_state_promise_nonempty [OF state] promise have p: "p \<noteq> []"
    by auto
  have met: "promise_met (completion_promise f) last_output = (trimmed_collapsed inner = p)"
    using promise span p by (simp add: promise_met_def normalize_promise_spec)
  have mt: "main_try env w =
      (if trimmed_collapsed inner = p then SystemExit 0 (announce (done_line p))
       else SystemExit 0 (continue_loop env content f))"
    using main_try_after_checks [OF state transcript] lo met promise by simp
  show "(main env w =
            \<lparr>stdout = [''Done: Ralph loop: Detected <promise>'' @ p @ ''</promise>''],
             stderr = [], state_file_after = None, exit_code = 0\<rparr>)
          = (trimmed_collapsed inner = p)"
  proof (cases "trimmed_collapsed inner = p")
    case True
    with mt have "main_try env w = SystemExit 0 (announce (done_line p))" by simp
    from main_of_exit [OF this] True show ?thesis
      by (simp add: announce_def done_line_def)
  next
    case False
    with mt have "main_try env w = SystemExit 0 (continue_loop env content f)" by simp
    from main_of_exit [OF this] continue_loop_not_silent_delete [of env content f] False
    show ?thesis
      by auto
  qed
  show "trimmed_collapsed ''  DONE   now '' = ''DONE now''"
    by code_simp
qed

theorem promise_completes_on_equality_witness:
  "main sample_env (sample_world promise_state [assistant_line ''<promise>DONE</promise>'']) =
     \<lparr>stdout = [''Done: Ralph loop: Detected <promise>DONE</promise>''],
      stderr = [], state_file_after = None, exit_code = 0\<rparr> \<and>
   main sample_env (sample_world promise_state [assistant_line ''<promise>  DONE   now </promise>'']) \<noteq>
     \<lparr>stdout = [''Done: Ralph loop: Detected <promise>DONE</promise>''],
      stderr = [], state_file_after = None, exit_code = 0\<rparr>"
proof -
  let ?f = "\<lparr>iteration = 1, max_iterations = 0, completion_promise = Some ''DONE''\<rparr>"
  let ?a = "''<promise>DONE</promise>''"
  let ?b = "''<promise>  DONE   now </promise>''"
  have s1: "check_state sample_env (sample_world promise_state [assistant_line ?a]) =
      Inr (promise_state, ?f)"
    by code_simp
  have t1: "read_transcript sample_env (sample_world promise_state [assistant_line ?a]) =
      Inr (''t.jsonl'', [assistant_line ?a])"
    by code_simp
  have o1: "last_assistant_text sample_env ''t.jsonl'' [assistant_line ?a] = Inr ?a"
    by code_simp
  have s2: "check_state sample_env (sample_world promise_state [assistant_line ?b]) =
      Inr (promise_state, ?f)"
    by code_simp
  have t2: "read_transcript sample_env (sample_world promise_state [assistant_line ?b]) =
      Inr (''t.jsonl'', [assistant_line ?b])"
    by code_simp
  have o2: "last_assistant_text sample_env ''t.jsonl'' [assistant_line ?b] = Inr ?b"
    by code_simp
  have p: "completion_promise ?f = Some ''DONE''"
    by simp
  have i1: "promise_search ?a = Some ''DONE''"
    by code_simp
  have i2: "promise_search ?b = Some ''  DONE   now ''"
    by code_simp
  have n1: "trimmed_collapsed ''DONE'' = ''DONE''"
    by code_simp
  from promise_completes_on_equality [OF s1 t1 o1 p i1] n1
  have "main sample_env (sample_world promise_state [assistant_line ?a]) =
     \<lparr>stdout = [''Done: Ralph loop: Detected <promise>DONE</promise>''],
      stderr = [], state_file_after = None, exit_code = 0\<rparr>"
    by simp
  moreover from promise_completes_on_equality [OF s2 t2 o2 p i2]
  have "main sample_env (sample_world promise_state [assistant_line ?b]) \<noteq>
     \<lparr>stdout = [''Done: Ralph loop: Detected <promise>DONE</promise>''],
      stderr = [], state_file_after = None, exit_code = 0\<rparr>"
    by simp
  ultimately show ?thesis
    by simp
qed

lemma prefix_of_long_enough:
  assumes "length p \<le> length a"
  shows "prefix p (a @ b) = prefix p a"
proof
  assume "prefix p (a @ b)"
  then have "p = take (length p) (a @ b)"
    by (metis append_eq_conv_conj prefixE)
  with assms have "p = take (length p) a"
    by simp
  then show "prefix p a"
    by (metis take_is_prefix)
next
  assume "prefix p a"
  then show "prefix p (a @ b)"
    by (rule prefix_prefix)
qed

lemma until_close_tag_first:
  "\<not> contains ''</promise>'' (inner @ ''</promise'') \<Longrightarrow>
   until_close_tag (inner @ ''</promise>'' @ post) = Some inner"
proof (induction inner)
  case Nil
  then show ?case by simp
next
  case (Cons c cs)
  from Cons.prems have np: "\<not> prefix ''</promise>'' ((c # cs) @ ''</promise'')"
    and nc: "\<not> contains ''</promise>'' (cs @ ''</promise'')"
    by simp_all
  have e: "((c # cs) @ ''</promise'') @ (''>'' @ post) = c # (cs @ ''</promise>'' @ post)"
    by simp
  have len: "length ''</promise>'' \<le> length ((c # cs) @ ''</promise'')"
    by simp
  from np prefix_of_long_enough [OF len, of "''>'' @ post", unfolded e]
  have "\<not> prefix ''</promise>'' (c # (cs @ ''</promise>'' @ post))"
    by blast
  then have "until_close_tag (c # (cs @ ''</promise>'' @ post)) =
      map_option ((#) c) (until_close_tag (cs @ ''</promise>'' @ post))"
    by (simp only: until_close_tag.simps if_False)
  with Cons.IH [OF nc] show ?case
    by (simp only: append_Cons option.map)
qed

lemma promise_search_first:
  "\<not> contains ''<promise>'' (pre @ ''<promise'') \<Longrightarrow> until_close_tag rest = Some g \<Longrightarrow>
   promise_search (pre @ ''<promise>'' @ rest) = Some g"
proof (induction pre)
  case Nil
  then show ?case by simp
next
  case (Cons c cs)
  from Cons.prems(1) have np: "\<not> prefix ''<promise>'' ((c # cs) @ ''<promise'')"
    and nc: "\<not> contains ''<promise>'' (cs @ ''<promise'')"
    by simp_all
  have e: "((c # cs) @ ''<promise'') @ (''>'' @ rest) = c # (cs @ ''<promise>'' @ rest)"
    by simp
  have len: "length ''<promise>'' \<le> length ((c # cs) @ ''<promise'')"
    by simp
  from np prefix_of_long_enough [OF len, of "''>'' @ rest", unfolded e]
  have "\<not> prefix ''<promise>'' (c # (cs @ ''<promise>'' @ rest))"
    by blast
  then have "promise_search (c # (cs @ ''<promise>'' @ rest)) =
      promise_search (cs @ ''<promise>'' @ rest)"
    by (simp only: promise_search.simps if_False)
  with Cons.IH [OF nc Cons.prems(2)] show ?case
    by (simp only: append_Cons)
qed

text \<open>
  C9. All checks before the promise check have passed and a promise \<open>p\<close> is configured.
  \<open>last_output\<close> has its first \<open><promise>\<close> at the end of \<open>pre\<close>, and the first \<open></promise>\<close>
  after it closes \<open>inner\<close>, which may hold line breaks. If \<open>inner\<close>, normalized, differs
  from \<open>p\<close>, the loop goes on to its next step whatever follows in \<open>post\<close>, also when
  \<open>post\<close> holds a span that would match.
\<close>

theorem only_first_span_examined:
  assumes state: "check_state env w = Inr (content, f)"
    and transcript: "read_transcript env w = Inr (path, ls)"
    and lo: "last_assistant_text env path ls = Inr last_output"
    and promise: "completion_promise f = Some p"
    and shape: "last_output = pre @ ''<promise>'' @ inner @ ''</promise>'' @ post"
    and first_open: "\<not> contains ''<promise>'' (pre @ ''<promise'')"
    and first_close: "\<not> contains ''</promise>'' (inner @ ''</promise'')"
    and differs: "normalize_promise inner \<noteq> p"
  shows "main env w =
    \<lparr>stdout = out (continue_loop env content f),
     stderr = err (continue_loop env content f),
     state_file_after = sfile (continue_loop env content f),
     exit_code = 0\<rparr>"
proof -
  have "promise_search last_output = Some inner"
    unfolding shape
    by (rule promise_search_first [OF first_open until_close_tag_first [OF first_close]])
  with promise differs have "\<not> promise_met (completion_promise f) last_output"
    by (simp add: promise_met_def)
  with main_try_after_checks [OF state transcript] lo
  have "main_try env w = SystemExit 0 (continue_loop env content f)"
    by simp
  from main_of_exit [OF this] show ?thesis .
qed

theorem only_first_span_examined_witness:
  "promise_search '' and then <promise>DONE</promise>'' = Some ''DONE'' \<and>
   main sample_env (sample_world promise_state
       [assistant_line ''<promise>nearly</promise> and then <promise>DONE</promise>'']) =
     \<lparr>stdout = [sample_dumps (block_decision ''Keep going''
         ''Refresh: Ralph iteration 2 | To stop: output <promise>DONE</promise> (ONLY when statement is TRUE - do not lie to exit!)'')],
      stderr = [],
      state_file_after = Some (Regular
         (state_text [''iteration: 2'', ''completion_promise: '' @ quoted ''DONE''] ''Keep going'')),
      exit_code = 0\<rparr>"
proof -
  let ?f = "\<lparr>iteration = 1, max_iterations = 0, completion_promise = Some ''DONE''\<rparr>"
  let ?a = "''<promise>nearly</promise> and then <promise>DONE</promise>''"
  have s: "check_state sample_env (sample_world promise_state [assistant_line ?a]) =
      Inr (promise_state, ?f)"
    by code_simp
  have t: "read_transcript sample_env (sample_world promise_state [assistant_line ?a]) =
      Inr (''t.jsonl'', [assistant_line ?a])"
    by code_simp
  have o: "last_assistant_text sample_env ''t.jsonl'' [assistant_line ?a] = Inr ?a"
    by code_simp
  have p: "completion_promise ?f = Some ''DONE''"
    by simp
  have shape: "?a = [] @ ''<promise>'' @ ''nearly'' @ ''</promise>'' @ '' and then <promise>DONE</promise>''"
    by simp
  have fo: "\<not> contains ''<promise>'' ([] @ ''<promise'')"
    by code_simp
  have fc: "\<not> contains ''</promise>'' (''nearly'' @ ''</promise'')"
    by code_simp
  have d: "normalize_promise ''nearly'' \<noteq> ''DONE''"
    by code_simp
  have later: "promise_search '' and then <promise>DONE</promise>'' = Some ''DONE''"
    by code_simp
  have c: "continue_loop sample_env promise_state ?f =
     \<lparr>out = [sample_dumps (block_decision ''Keep going''
         ''Refresh: Ralph iteration 2 | To stop: output <promise>DONE</promise> (ONLY when statement is TRUE - do not lie to exit!)'')],
      err = [],
      sfile = Some (Regular
         (state_text [''iteration: 2'', ''completion_promise: '' @ quoted ''DONE''] ''Keep going''))\<rparr>"
    by code_simp
  from only_first_span_examined [OF s t o p shape fo fc d] c later show ?thesis
    by simp
qed

subsection \<open>The block decision\<close>






subsection \<open>The rewritten state file\<close>

text \<open>
  C1 fails on a prompt that itself holds the text \<open>iteration: 10\<close>: the substitution of
  line 176 replaces every match in the file, not only the header's field, so the body
  on disk is no longer the prompt that was given.
\<close>

theorem iteration_text_in_prompt_rewritten:
  "main sample_env
     (sample_world (state_text [''iteration: 1''] ''Set iteration: 10 in the config'')
        [assistant_line ''still working'']) =
     \<lparr>stdout = [sample_dumps (block_decision ''Set iteration: 10 in the config''
         ''Refresh: Ralph iteration 2 | No completion promise set - loop runs infinitely'')],
      stderr = [],
      state_file_after = Some (Regular
        (state_text [''iteration: 2''] ''Set iteration: 2 in the config'')),
      exit_code = 0\<rparr>"
  by code_simp

end
